theory Spec2Isabelle
  imports Complex_Main "HOL-Library.Sublist"
begin

section \<open>Values and ambient contexts\<close>

text \<open>
  A thrown JavaScript value is either an instance of \<open>Error\<close>, which carries a message,
  or any other value (a string, a plain object, ...), of which only a printed form is kept.
\<close>

datatype thrown = JsError string | NonError string

text \<open>
  \<open>React.createContext(d)\<close> together with \<open>React.useContext\<close>: a component reads the
  value of the nearest provider above it, and the default \<open>d\<close> when there is none.
\<close>

datatype 'a provider = NoProvider | Provided 'a

definition useContext :: "'a \<Rightarrow> 'a provider \<Rightarrow> 'a" where
  "useContext dflt p = (case p of NoProvider \<Rightarrow> dflt | Provided v \<Rightarrow> v)"

subsection \<open>The map context and \<open>useMap\<close>\<close>

text \<open>
  \<open>interface MapContextValue { map: maplibregl.Map | null; isLoaded: boolean }\<close>;
  the field \<open>map\<close> is \<open>map_engine\<close> here, since \<open>map\<close> is the list function.
  Engine instances are identified by a number; \<open>None\<close> is \<open>null\<close>.
  A context value itself is a JavaScript reference, so it is an option as well:
  \<open>None\<close> is the only falsy one, and \<open>!context\<close> holds exactly for it.
\<close>

record MapContextValue =
  map_engine :: "nat option"
  isLoaded :: bool

definition MapContext :: "MapContextValue option" where
  "MapContext = Some \<lparr>map_engine = None, isLoaded = False\<rparr>"

definition useMap :: "MapContextValue option provider \<Rightarrow> thrown + MapContextValue" where
  "useMap p =
     (let context = useContext MapContext p
      in case context of
           None \<Rightarrow> Inl (JsError ''useMap must be used within a Map component'')
         | Some c \<Rightarrow> Inr c)"

subsection \<open>The marker context, \<open>MarkerPopup\<close> and \<open>MarkerTooltip\<close>\<close>

text \<open>
  \<open>React.createContext<MarkerContextValue | null>(null)\<close>: the default is \<open>null\<close>.
  Markers and their DOM elements are identified by numbers.
\<close>

record MarkerContextValue =
  marker :: "nat option"
  markerElement :: "nat option"

definition MarkerContext :: "MarkerContextValue option" where
  "MarkerContext = None"

text \<open>
  The two components up to the destructuring of the marker context: both read the marker
  context, then call \<open>useMap\<close>, and only then test the marker context.
\<close>

definition MarkerPopup ::
  "MarkerContextValue option provider \<Rightarrow> MapContextValue option provider
     \<Rightarrow> thrown + (MarkerContextValue \<times> nat option)" where
  "MarkerPopup mp p =
     (let context = useContext MarkerContext mp
      in case useMap p of
           Inl e \<Rightarrow> Inl e
         | Inr c \<Rightarrow>
             (case context of
                None \<Rightarrow> Inl (JsError ''MarkerPopup must be used within a MapMarker'')
              | Some m \<Rightarrow> Inr (m, map_engine c)))"

definition MarkerTooltip ::
  "MarkerContextValue option provider \<Rightarrow> MapContextValue option provider
     \<Rightarrow> thrown + (MarkerContextValue \<times> nat option)" where
  "MarkerTooltip mp p =
     (let context = useContext MarkerContext mp
      in case useMap p of
           Inl e \<Rightarrow> Inl e
         | Inr c \<Rightarrow>
             (case context of
                None \<Rightarrow> Inl (JsError ''MarkerTooltip must be used within a MapMarker'')
              | Some m \<Rightarrow> Inr (m, map_engine c)))"

section \<open>Helpers for props and class names\<close>

text \<open>A parameter default of a destructuring pattern: \<open>{ x = d }\<close>.\<close>

definition dflt :: "'a \<Rightarrow> 'a option \<Rightarrow> 'a" where
  "dflt d x = (case x of None \<Rightarrow> d | Some v \<Rightarrow> v)"

text \<open>An optional boolean prop (\<open>boolean | null | undefined\<close>) is truthy only when true.\<close>

definition truthy :: "bool option \<Rightarrow> bool" where
  "truthy b = (b = Some True)"

text \<open>
  \<open>cond && "classes"\<close> as an argument of \<open>cn\<close>: the string when the condition holds,
  a falsy value (\<open>None\<close>) otherwise. An undefined \<open>className\<close> is \<open>None\<close> as well.
\<close>

definition and_class :: "bool \<Rightarrow> string \<Rightarrow> string option" where
  "and_class b c = (if b then Some c else None)"

text \<open>The class tokens of a class string: its maximal runs of non-space characters.\<close>

fun words_acc :: "string \<Rightarrow> string \<Rightarrow> string list" where
  "words_acc w [] = (if w = [] then [] else [w])"
| "words_acc w (c # cs) =
     (if c = CHR '' ''
      then (if w = [] then words_acc [] cs else w # words_acc [] cs)
      else words_acc (w @ [c]) cs)"

definition class_words :: "string \<Rightarrow> string list" where
  "class_words s = words_acc [] s"

text \<open>
  \<open>cn\<close> comes from \<open>@/lib/utils\<close>, which is not among the sources. A class name built
  with it is kept as the list of its arguments; \<open>class_tokens\<close> are the tokens of the
  truthy ones, that is, all the classes handed to \<open>cn\<close>.
\<close>

definition class_tokens :: "string option list \<Rightarrow> string list" where
  "class_tokens args = concat (map class_words (List.map_filter (\<lambda>a. a) args))"

text \<open>\<open>String.prototype.includes\<close>: the argument occurs as a contiguous substring.\<close>

fun str_includes :: "string \<Rightarrow> string \<Rightarrow> bool" where
  "str_includes [] sub = (sub = [])"
| "str_includes (c # cs) sub = (prefix sub (c # cs) \<or> str_includes cs sub)"

text \<open>
  A JavaScript number: an ordinary number, one of the two infinities, or \<open>NaN\<close>.
  \<open>===\<close>, \<open><\<close> and \<open>>\<close> on numbers: any comparison with \<open>NaN\<close> is false, also
  \<open>NaN === NaN\<close>; \<open>a > b\<close> is \<open>b < a\<close>; \<open>a <= b\<close> holds when \<open>a < b\<close> or \<open>a === b\<close>.
\<close>

datatype number = Num real | PosInf | NegInf | NaN

fun num_less :: "number \<Rightarrow> number \<Rightarrow> bool" where
  "num_less NaN b = False"
| "num_less a NaN = False"
| "num_less (Num x) (Num y) = (x < y)"
| "num_less PosInf b = False"
| "num_less a NegInf = False"
| "num_less a b = True"

definition num_eq :: "number \<Rightarrow> number \<Rightarrow> bool" where
  "num_eq a b = (a \<noteq> NaN \<and> a = b)"


text \<open>JavaScript values a caller can pass through as props; functions are opaque.\<close>

datatype js =
    JUndefined
  | JNull
  | JBool bool
  | JNum number
  | JStr string
  | JFun string
  | JObj "(string \<times> js) list"
  | JElem string "(string \<times> js) list"

section \<open>Stepper\<close>

text \<open>
  The state of a \<open>Stepper\<close>: its \<open>activeStep\<close> state variable (\<open>activeStep_st\<close>, to
  tell it from the field of the context), and the arguments with which it has called its
  \<open>onChange\<close> prop so far. Steps are JavaScript numbers.
\<close>

record stepper_state =
  activeStep_st :: number
  onChange_calls :: "number list"

record StepperContextValue =
  activeStep :: number
  setActiveStep :: "(number \<Rightarrow> stepper_state \<Rightarrow> stepper_state) option"

definition StepperContext :: StepperContextValue where
  "StepperContext = \<lparr>activeStep = Num 0, setActiveStep = None\<rparr>"

text \<open>\<open>React.useState(value)\<close> with \<open>value = 0\<close> by default.\<close>

definition Stepper_initial :: "number option \<Rightarrow> stepper_state" where
  "Stepper_initial value = \<lparr>activeStep_st = dflt (Num 0) value, onChange_calls = []\<rparr>"

text \<open>The effect on \<open>[value]\<close>; after the default, \<open>value\<close> is never undefined.\<close>

definition Stepper_value_effect :: "number option \<Rightarrow> stepper_state \<Rightarrow> stepper_state" where
  "Stepper_value_effect value s = s\<lparr>activeStep_st := dflt (Num 0) value\<rparr>"

text \<open>\<open>onChange\<close> is optional: the flag says whether the caller gave one.\<close>

definition handleStepChange :: "bool \<Rightarrow> number \<Rightarrow> stepper_state \<Rightarrow> stepper_state" where
  "handleStepChange onChange step s =
     (let s1 = s\<lparr>activeStep_st := step\<rparr>
      in if onChange then s1\<lparr>onChange_calls := onChange_calls s1 @ [step]\<rparr> else s1)"

text \<open>What a rendered \<open>Stepper\<close> provides to its children.\<close>

definition Stepper :: "bool \<Rightarrow> stepper_state \<Rightarrow> StepperContextValue provider" where
  "Stepper onChange s =
     Provided \<lparr>activeStep = activeStep_st s, setActiveStep = Some (handleStepChange onChange)\<rparr>"

section \<open>Rendered elements\<close>

text \<open>
  A prop of a rendered element is a value, a class name built by \<open>cn\<close> from the listed
  arguments, or the click handler a \<open>StepperItem\<close> creates. Props passed through from
  the caller are values: a caller's callback is an opaque \<open>JFun\<close>.
\<close>

datatype prop_value =
    Val js
  | Cn "string option list"
  | OnClick "stepper_state \<Rightarrow> stepper_state"

record element =
  comp :: string
  attrs :: "string \<rightharpoonup> prop_value"

text \<open>
  \<open><Comp a={x} b={y} {...rest} />\<close>: the props written first, then the spread ones,
  which win on a common key.
\<close>

definition jsx :: "string \<Rightarrow> (string \<rightharpoonup> prop_value) \<Rightarrow> (string \<rightharpoonup> js) \<Rightarrow> element" where
  "jsx c own rest = \<lparr>comp = c, attrs = own ++ (\<lambda>k. map_option Val (rest k))\<rparr>"

text \<open>
  \<open>{ a, b, ...props }\<close>: the rest of a props object has none of the keys named before it.
\<close>

definition without :: "string list \<Rightarrow> (string \<rightharpoonup> js) \<Rightarrow> (string \<rightharpoonup> js)" where
  "without ks m = (\<lambda>k. if k \<in> set ks then None else m k)"

definition element_class_tokens :: "element \<Rightarrow> string list" where
  "element_class_tokens el =
     (case attrs el ''className'' of Some (Cn args) \<Rightarrow> class_tokens args | _ \<Rightarrow> [])"

subsection \<open>\<open>StepperItem\<close>\<close>

definition StepperItem ::
  "StepperContextValue provider \<Rightarrow> string option \<Rightarrow> number \<Rightarrow> bool option
     \<Rightarrow> (string \<rightharpoonup> js) \<Rightarrow> element" where
  "StepperItem p className value disabled props =
     (let ctx = useContext StepperContext p;
          isActive = num_eq (activeStep ctx) value;
          isCompleted = num_less value (activeStep ctx);
          isDisabled = (truthy disabled \<or> num_less (activeStep ctx) value)
      in jsx ''div''
           [''className'' \<mapsto>
              Cn [Some ''flex w-full items-center'',
                  and_class (\<not> isDisabled) ''cursor-pointer'',
                  className],
            ''data-active'' \<mapsto> Val (JBool isActive),
            ''data-completed'' \<mapsto> Val (JBool isCompleted),
            ''data-disabled'' \<mapsto> Val (JBool isDisabled),
            ''onClick'' \<mapsto>
              OnClick (\<lambda>s. if \<not> isDisabled
                            then (case setActiveStep ctx of Some f \<Rightarrow> f value s | None \<Rightarrow> s)
                            else s)]
           (without [''className'', ''value'', ''disabled'', ''children''] props))"

text \<open>
  A click on a rendered element runs its \<open>onClick\<close> prop. The handler of \<open>StepperItem\<close>
  acts on the state of the \<open>Stepper\<close>. A function passed by the caller is the caller's
  code: the caller owns the \<open>value\<close> and \<open>onChange\<close> props of the \<open>Stepper\<close>, so its code
  can change the active step (through \<open>value\<close> and the effect on it) and call \<open>onChange\<close>.
  What the caller's function named \<open>g\<close> does to the \<open>Stepper\<close> is \<open>caller g\<close>, a
  parameter. Any other value under \<open>onClick\<close> handles nothing.
\<close>

definition click ::
  "(string \<Rightarrow> stepper_state \<Rightarrow> stepper_state) \<Rightarrow> element \<Rightarrow> stepper_state \<Rightarrow> stepper_state" where
  "click caller el s =
     (case attrs el ''onClick'' of
        Some (OnClick f) \<Rightarrow> f s
      | Some (Val (JFun g)) \<Rightarrow> caller g s
      | _ \<Rightarrow> s)"

subsection \<open>\<open>ListItem\<close>\<close>

definition ListItem ::
  "string option \<Rightarrow> bool option \<Rightarrow> bool option \<Rightarrow> bool option
     \<Rightarrow> (string \<rightharpoonup> js) \<Rightarrow> element" where
  "ListItem className asChild selected disabled props =
     (let asChild = dflt False asChild;
          selected = dflt False selected;
          disabled = dflt False disabled;
          Comp = (if asChild then ''Slot'' else ''li'')
      in jsx Comp
           [''data-slot'' \<mapsto> Val (JStr ''list-item''),
            ''data-selected'' \<mapsto> Val (JBool selected),
            ''data-disabled'' \<mapsto> Val (JBool disabled),
            ''className'' \<mapsto>
              Cn [Some ''flex items-center gap-3 rounded-md px-3 py-2 text-sm transition-colors'',
                  Some ''hover:bg-accent hover:text-accent-foreground'',
                  Some ''focus-visible:ring-ring focus-visible:ring-2 focus-visible:ring-offset-2 focus-visible:outline-none'',
                  and_class selected ''bg-accent text-accent-foreground'',
                  and_class disabled ''pointer-events-none opacity-50'',
                  className]]
           (without [''className'', ''asChild'', ''selected'', ''disabled''] props))"

subsection \<open>\<open>Toaster\<close>\<close>

text \<open>
  The first argument is the \<open>theme\<close> field of what \<open>useTheme()\<close> returns, \<open>None\<close> when
  it is undefined. All the props of \<open>Toaster\<close> are spread onto the toast engine's
  component after the ones \<open>Toaster\<close> writes.
\<close>

definition Toaster :: "string option \<Rightarrow> (string \<rightharpoonup> js) \<Rightarrow> element" where
  "Toaster useTheme_theme props =
     (let theme = dflt ''system'' useTheme_theme
      in jsx ''Sonner''
           [''theme'' \<mapsto> Val (JStr theme),
            ''className'' \<mapsto>
              Cn [Some ''toaster group [&>li]:flex [&>li]:items-start [&>li]:gap-3''],
            ''icons'' \<mapsto>
              Val (JObj
                [(''success'', JElem ''CircleCheckIcon''
                    [(''className'', JStr ''mt-0.5 size-4 shrink-0 text-green-500'')]),
                 (''info'', JElem ''InfoIcon''
                    [(''className'', JStr ''mt-0.5 size-4 shrink-0 text-blue-500'')]),
                 (''warning'', JElem ''TriangleAlertIcon''
                    [(''className'', JStr ''mt-0.5 size-4 shrink-0 text-yellow-500'')]),
                 (''error'', JElem ''OctagonXIcon''
                    [(''className'', JStr ''mt-0.5 size-4 shrink-0 text-red-500'')]),
                 (''loading'', JElem ''Loader2Icon''
                    [(''className'', JStr ''mt-0.5 size-4 shrink-0 animate-spin'')])]),
            ''style'' \<mapsto>
              Val (JObj
                [(''--normal-bg'', JStr ''var(--popover)''),
                 (''--normal-text'', JStr ''var(--popover-foreground)''),
                 (''--normal-border'', JStr ''var(--border)''),
                 (''--border-radius'', JStr ''var(--radius)'')])]
           props)"

text \<open>The statuses for which an element's \<open>icons\<close> prop holds an icon element.\<close>

fun icon_statuses :: "prop_value option \<Rightarrow> string list" where
  "icon_statuses (Some (Val (JObj kvs))) = [k. (k, JElem c ps) \<leftarrow> kvs]"
| "icon_statuses _ = []"

section \<open>ButtonGroup\<close>

text \<open>
  The children of a \<open>ButtonGroup\<close>, as \<open>React.Children\<close> walks them: a valid element
  (its type and its \<open>className\<close>), a string or number, or an empty node (\<open>null\<close>,
  \<open>undefined\<close> or a boolean, which the callback of \<open>React.Children.map\<close> receives as
  \<open>null\<close>). The class name of an element is the caller's own, or \<open>cn\<close> applied to a
  class name followed by further arguments.
\<close>

datatype class_name = Plain "string option" | Merged class_name "string option list"

datatype node = Element string class_name | Text string | Empty

fun isValidElement :: "node \<Rightarrow> bool" where
  "isValidElement (Element t c) = True"
| "isValidElement _ = False"

text \<open>
  \<open>React.Children.count\<close> counts every node, the empty ones and the strings too, and
  \<open>React.Children.map\<close> calls its function on every node with the running index.
  The list of results keeps one entry for each child, in order; React leaves the \<open>null\<close>
  results out of the array it renders, and renders nothing for them in either case.
\<close>

definition Children_count :: "node list \<Rightarrow> int" where
  "Children_count children = int (length children)"

definition Children_map :: "(node \<Rightarrow> int \<Rightarrow> node) \<Rightarrow> node list \<Rightarrow> node list" where
  "Children_map f children = map (\<lambda>(i, child). f child (int i)) (enumerate 0 children)"

text \<open>The arguments of \<open>cn\<close> that follow \<open>child.props.className\<close>.\<close>

definition ButtonGroup_classes :: "bool option \<Rightarrow> int \<Rightarrow> int \<Rightarrow> string option list" where
  "ButtonGroup_classes pill count index =
     [and_class (index = 0) ''rounded-l-md'',
      and_class (index = count - 1) ''rounded-r-md'',
      and_class (index \<noteq> 0 \<and> index \<noteq> count - 1) ''rounded-none'',
      and_class (truthy pill \<and> index = 0) ''rounded-l-full'',
      and_class (truthy pill \<and> index = count - 1) ''rounded-r-full'',
      and_class (index \<noteq> 0) ''border-l-0'']"

text \<open>The function mapped over the children; \<open>count\<close> is \<open>React.Children.count(children)\<close>.\<close>

fun ButtonGroup_child :: "bool option \<Rightarrow> int \<Rightarrow> node \<Rightarrow> int \<Rightarrow> node" where
  "ButtonGroup_child pill count (Element t c) index =
     Element t (Merged c (ButtonGroup_classes pill count index))"
| "ButtonGroup_child pill count child index = child"

text \<open>
  The children that \<open>ButtonGroup\<close> renders inside its \<open>div\<close>; the classes of the \<open>div\<close>
  itself are fixed by the variants and do not depend on the children.
\<close>

definition ButtonGroup :: "bool option \<Rightarrow> node list \<Rightarrow> node list" where
  "ButtonGroup pill children =
     Children_map (ButtonGroup_child pill (Children_count children)) children"

text \<open>A node receives a class when \<open>ButtonGroup\<close> has put it among the arguments of \<open>cn\<close>.\<close>

fun receives :: "node \<Rightarrow> string \<Rightarrow> bool" where
  "receives (Element t (Merged c added)) x = (Some x \<in> set added)"
| "receives _ x = False"

section \<open>The Map component and its engine instance\<close>

text \<open>
  The refs and state of a \<open>Map\<close>: whether the container \<open>div\<close> is attached
  (\<open>mapContainer.current\<close>), the stored engine (\<open>mapInstance.current\<close>), the \<open>isLoaded\<close>
  state (\<open>isLoaded_st\<close>, to tell it from the field of the context), and the console. Of the mapping engine, an external library, the model keeps
  the instances this component has constructed and not yet handed to \<open>remove()\<close>;
  \<open>created\<close> numbers the instances.
\<close>

record map_state =
  mapContainer :: bool
  mapInstance :: "nat option"
  isLoaded_st :: bool
  engines :: "nat list"
  created :: nat
  console :: "thrown list"

definition Map_initial :: map_state where
  "Map_initial =
     \<lparr>mapContainer = False, mapInstance = None, isLoaded_st = False,
      engines = [], created = 0, console = []\<rparr>"

text \<open>
  The initialisation effect. The result says whether it returned a cleanup function.
\<close>

definition Map_init_effect :: "map_state \<Rightarrow> map_state \<times> bool" where
  "Map_init_effect s =
     (if \<not> mapContainer s \<or> mapInstance s \<noteq> None then (s, False)
      else (s\<lparr>mapInstance := Some (created s),
               engines := created s # engines s,
               created := Suc (created s)\<rparr>, True))"

text \<open>The \<open>load\<close> listener registered on an engine: the engine calls it while it lives.\<close>

definition engine_load :: "nat \<Rightarrow> map_state \<Rightarrow> map_state" where
  "engine_load e s = (if e \<in> set (engines s) then s\<lparr>isLoaded_st := True\<rparr> else s)"

text \<open>
  \<open>remove()\<close> of the engine returns or throws; which of the two is the engine's business,
  so it is a parameter. A pair of an optional thrown value and a state is the outcome of
  a statement that may throw.
\<close>

datatype outcome = Returned | Threw thrown

definition engine_remove :: "nat \<Rightarrow> outcome \<Rightarrow> map_state \<Rightarrow> thrown option \<times> map_state" where
  "engine_remove e out s =
     (let s1 = s\<lparr>engines := removeAll e (engines s)\<rparr>
      in case out of Returned \<Rightarrow> (None, s1) | Threw x \<Rightarrow> (Some x, s1))"

text \<open>The \<open>catch\<close> block of the cleanup: what it does with the caught value.\<close>

fun Map_cleanup_catch :: "thrown \<Rightarrow> map_state \<Rightarrow> map_state" where
  "Map_cleanup_catch (JsError message) s =
     (if \<not> str_includes message ''aborted''
      then s\<lparr>console := console s @ [JsError message]\<rparr> else s)"
| "Map_cleanup_catch (NonError v) s = s"

text \<open>
  The cleanup function: \<open>try\<close>, \<open>catch\<close>, \<open>finally\<close>. The first component of the
  result is the value that leaves the function by a throw, if any.
\<close>

definition Map_cleanup :: "outcome \<Rightarrow> map_state \<Rightarrow> thrown option \<times> map_state" where
  "Map_cleanup out s =
     (case mapInstance s of
        None \<Rightarrow> (None, s)
      | Some e \<Rightarrow>
          (let (x, s1) = engine_remove e out s;
               (y, s2) = (case x of None \<Rightarrow> (None, s1)
                          | Some error \<Rightarrow> (None, Map_cleanup_catch error s1))
           in (y, s2\<lparr>mapInstance := None, isLoaded_st := False\<rparr>)))"

text \<open>What a rendered \<open>Map\<close> provides to its children.\<close>

definition Map_provides :: "map_state \<Rightarrow> MapContextValue option provider" where
  "Map_provides s = Provided (Some \<lparr>map_engine = mapInstance s, isLoaded = isLoaded_st s\<rparr>)"

text \<open>
  What can happen to a \<open>Map\<close>, in any order: its container is attached, React runs the
  initialisation effect, React runs the cleanup (and \<open>remove()\<close> behaves in some way),
  an engine fires \<open>load\<close>.
\<close>

datatype map_event = Attach | InitEffect | Cleanup outcome | Load nat

fun Map_step :: "map_state \<Rightarrow> map_event \<Rightarrow> map_state" where
  "Map_step s Attach = s\<lparr>mapContainer := True\<rparr>"
| "Map_step s InitEffect = fst (Map_init_effect s)"
| "Map_step s (Cleanup out) = snd (Map_cleanup out s)"
| "Map_step s (Load e) = engine_load e s"

definition Map_run :: "map_event list \<Rightarrow> map_state" where
  "Map_run evs = foldl Map_step Map_initial evs"

text \<open>The stored engine is the only one the component holds.\<close>

definition Map_inv :: "map_state \<Rightarrow> bool" where
  "Map_inv s = (engines s = (case mapInstance s of None \<Rightarrow> [] | Some e \<Rightarrow> [e]))"

section \<open>Routes and cluster layers on the engine's style\<close>

text \<open>
  The part of the mapping engine that \<open>MapRoute\<close> and \<open>MapClusterLayer\<close> drive: the
  sources of the style, its layers in drawing order (each with the source it draws),
  and the listeners registered on layers. The engine is an external library; the model
  takes its contract: adding an id that exists and removing an id that does not exist
  are errors (\<open>Inl\<close>), a layer needs its source, and a source still drawn by a layer
  is not removed. The functions on a style below are what the engine's methods of the
  same names do to its style.
\<close>

record style =
  sources :: "string set"
  layers :: "(string \<times> string) list"
  listeners :: "(string \<times> string) list"

text \<open>In a well-formed style every layer draws a source of the style.\<close>

definition wellformed :: "style \<Rightarrow> bool" where
  "wellformed m = (snd ` set (layers m) \<subseteq> sources m)"

definition getSource :: "string \<Rightarrow> style \<Rightarrow> bool" where
  "getSource i m = (i \<in> sources m)"

definition getLayer :: "string \<Rightarrow> style \<Rightarrow> bool" where
  "getLayer i m = (i \<in> fst ` set (layers m))"

definition addSource :: "string \<Rightarrow> style \<Rightarrow> thrown + style" where
  "addSource i m =
     (if getSource i m then Inl (JsError ''source already exists'')
      else Inr (m\<lparr>sources := insert i (sources m)\<rparr>))"

definition addLayer :: "string \<Rightarrow> string \<Rightarrow> style \<Rightarrow> thrown + style" where
  "addLayer i src m =
     (if getLayer i m then Inl (JsError ''layer already exists'')
      else if getSource src m then Inr (m\<lparr>layers := layers m @ [(i, src)]\<rparr>)
      else Inl (JsError ''source not found''))"

definition removeLayer :: "string \<Rightarrow> style \<Rightarrow> thrown + style" where
  "removeLayer i m =
     (if getLayer i m then Inr (m\<lparr>layers := filter (\<lambda>l. fst l \<noteq> i) (layers m)\<rparr>)
      else Inl (JsError ''cannot remove non-existing layer''))"

definition removeSource :: "string \<Rightarrow> style \<Rightarrow> thrown + style" where
  "removeSource i m =
     (if getSource i m
      then (if i \<in> snd ` set (layers m) then Inr m
            else Inr (m\<lparr>sources := sources m - {i}\<rparr>))
      else Inl (JsError ''there is no source with this ID''))"

definition on_layer :: "string \<Rightarrow> string \<Rightarrow> style \<Rightarrow> style" where
  "on_layer ev i m = m\<lparr>listeners := listeners m @ [(ev, i)]\<rparr>"

text \<open>
  The engine object that a component gets from the context and that its effect and its
  cleanup close over. \<open>map.remove()\<close> destroys the engine and drops its style; the
  methods that read or change the style go through it (\<open>this.style.getLayer(id)\<close>) and
  throw a \<open>TypeError\<close> once it is gone.
\<close>

datatype engine = Live style | Removed

definition TypeError :: thrown where
  "TypeError = JsError ''Cannot read properties of undefined''"

fun style_read :: "(style \<Rightarrow> bool) \<Rightarrow> engine \<Rightarrow> thrown + bool" where
  "style_read f (Live m) = Inr (f m)"
| "style_read f Removed = Inl TypeError"

fun style_change :: "(style \<Rightarrow> thrown + style) \<Rightarrow> engine \<Rightarrow> thrown + engine" where
  "style_change f (Live m) = (case f m of Inl e \<Rightarrow> Inl e | Inr m' \<Rightarrow> Inr (Live m'))"
| "style_change f Removed = Inl TypeError"

fun listen :: "string \<Rightarrow> string \<Rightarrow> engine \<Rightarrow> engine" where
  "listen ev i (Live m) = Live (on_layer ev i m)"
| "listen ev i Removed = Removed"

definition map_remove :: "engine \<Rightarrow> engine" where
  "map_remove eng = Removed"

text \<open>Sequencing of engine calls: the first error ends the function.\<close>

definition andThen :: "thrown + 'a \<Rightarrow> ('a \<Rightarrow> thrown + 'b) \<Rightarrow> thrown + 'b" where
  "andThen r f = (case r of Inl e \<Rightarrow> Inl e | Inr x \<Rightarrow> f x)"

subsection \<open>\<open>MapRoute\<close>\<close>

text \<open>
  The effect of \<open>MapRoute\<close> on the engine it gets from the context (\<open>eng\<close> is that
  engine, the \<open>map\<close> of the source, and \<open>c\<close> the context value); the callbacks are optional, the flags say which are
  given. With no engine or an engine not loaded the effect returns at once, without a
  cleanup: the boolean of the result.
\<close>

definition MapRoute_effect ::
  "MapContextValue \<Rightarrow> string \<Rightarrow> bool option \<Rightarrow> bool \<Rightarrow> bool \<Rightarrow> bool \<Rightarrow> engine
     \<Rightarrow> thrown + engine \<times> bool" where
  "MapRoute_effect c ident interactive onClick onMouseEnter onMouseLeave eng =
     (if map_engine c = None \<or> \<not> isLoaded c then Inr (eng, False)
      else
        (let sourceId = ''route-'' @ ident;
             layerId = ''route-layer-'' @ ident
         in andThen (style_read (getSource sourceId) eng) (\<lambda>hasSource.
            andThen (if \<not> hasSource then style_change (addSource sourceId) eng
                     else Inr eng) (\<lambda>eng1.
            andThen (style_read (getLayer layerId) eng1) (\<lambda>hasLayer.
            andThen (if \<not> hasLayer then style_change (addLayer layerId sourceId) eng1
                     else Inr eng1) (\<lambda>eng2.
            let eng3 = (if dflt True interactive \<and> onClick
                        then listen ''click'' layerId eng2 else eng2);
                eng4 = (if dflt True interactive \<and> onMouseEnter
                        then listen ''mouseenter'' layerId eng3 else eng3);
                eng5 = (if dflt True interactive \<and> onMouseLeave
                        then listen ''mouseleave'' layerId eng4 else eng4)
            in Inr (eng5, True)))))))"

text \<open>The cleanup the effect returns; \<open>eng\<close> is the engine as it is when React runs it.\<close>

definition MapRoute_cleanup :: "string \<Rightarrow> engine \<Rightarrow> thrown + engine" where
  "MapRoute_cleanup ident eng =
     (let sourceId = ''route-'' @ ident;
          layerId = ''route-layer-'' @ ident
      in andThen (style_read (getLayer layerId) eng) (\<lambda>hasLayer.
         andThen (if hasLayer then style_change (removeLayer layerId) eng
                  else Inr eng) (\<lambda>eng1.
         andThen (style_read (getSource sourceId) eng1) (\<lambda>hasSource.
         if hasSource then style_change (removeSource sourceId) eng1 else Inr eng1))))"

subsection \<open>\<open>MapClusterLayer\<close>\<close>

definition MapClusterLayer_effect ::
  "MapContextValue \<Rightarrow> bool \<Rightarrow> bool \<Rightarrow> engine \<Rightarrow> thrown + engine \<times> bool" where
  "MapClusterLayer_effect c onPointClick onClusterClick eng =
     (if map_engine c = None \<or> \<not> isLoaded c then Inr (eng, False)
      else
        (let sourceId = ''clusters'';
             clusterLayerId = ''clusters-layer'';
             clusterCountLayerId = ''cluster-count'';
             pointLayerId = ''unclustered-point''
         in andThen (style_change (addSource sourceId) eng) (\<lambda>eng1.
            andThen (style_change (addLayer clusterLayerId sourceId) eng1) (\<lambda>eng2.
            andThen (style_change (addLayer clusterCountLayerId sourceId) eng2) (\<lambda>eng3.
            andThen (style_change (addLayer pointLayerId sourceId) eng3) (\<lambda>eng4.
            let eng5 = (if onClusterClick then listen ''click'' clusterLayerId eng4 else eng4);
                eng6 = (if onPointClick then listen ''click'' pointLayerId eng5 else eng5);
                eng7 = listen ''mouseenter'' clusterLayerId eng6;
                eng8 = listen ''mouseleave'' clusterLayerId eng7;
                eng9 = listen ''mouseenter'' pointLayerId eng8;
                eng10 = listen ''mouseleave'' pointLayerId eng9
            in Inr (eng10, True)))))))"

definition MapClusterLayer_cleanup :: "engine \<Rightarrow> thrown + engine" where
  "MapClusterLayer_cleanup eng =
     (let sourceId = ''clusters'';
          clusterLayerId = ''clusters-layer'';
          clusterCountLayerId = ''cluster-count'';
          pointLayerId = ''unclustered-point''
      in andThen (style_read (getLayer pointLayerId) eng) (\<lambda>hasPoint.
         andThen (if hasPoint then style_change (removeLayer pointLayerId) eng
                  else Inr eng) (\<lambda>eng1.
         andThen (style_read (getLayer clusterCountLayerId) eng1) (\<lambda>hasCount.
         andThen (if hasCount then style_change (removeLayer clusterCountLayerId) eng1
                  else Inr eng1) (\<lambda>eng2.
         andThen (style_read (getLayer clusterLayerId) eng2) (\<lambda>hasCluster.
         andThen (if hasCluster then style_change (removeLayer clusterLayerId) eng2
                  else Inr eng2) (\<lambda>eng3.
         andThen (style_read (getSource sourceId) eng3) (\<lambda>hasSource.
         if hasSource then style_change (removeSource sourceId) eng3 else Inr eng3))))))))"

subsection \<open>Unmounting a Map together with a child\<close>

text \<open>
  When a \<open>Map\<close> is unmounted with a \<open>MapRoute\<close> or a \<open>MapClusterLayer\<close> below it,
  React runs the cleanups of the removed subtree parent first: the cleanup of the \<open>Map\<close>,
  which calls \<open>remove()\<close> on the stored engine (here it returns), and then the cleanup of
  the child, on the engine the child closed over. The result is the outcome of the
  cleanup of the \<open>Map\<close> and that of the child.
\<close>

definition unmount_Map ::
  "(engine \<Rightarrow> thrown + engine) \<Rightarrow> map_state \<Rightarrow> engine
     \<Rightarrow> (thrown option \<times> map_state) \<times> (thrown + engine)" where
  "unmount_Map child_cleanup s eng =
     (let parent = Map_cleanup Returned s;
          eng1 = (case mapInstance s of None \<Rightarrow> eng | Some e \<Rightarrow> map_remove eng)
      in (parent, child_cleanup eng1))"

section \<open>Contract checks of the map sub-components\<close>

lemma useMap_under_Map: "useMap (Provided (Some c)) = Inr c"
  by (simp add: useMap_def useContext_def)

lemma MarkerPopup_outside_MapMarker:
  "MarkerPopup NoProvider p = Inl (JsError ''MarkerPopup must be used within a MapMarker'')
   \<or> (\<exists>e. useMap p = Inl e)"
  by (simp add: MarkerPopup_def useContext_def MarkerContext_def split: sum.splits)

lemma MarkerTooltip_outside_MapMarker:
  "MarkerTooltip NoProvider p = Inl (JsError ''MarkerTooltip must be used within a MapMarker'')
   \<or> (\<exists>e. useMap p = Inl e)"
  by (simp add: MarkerTooltip_def useContext_def MarkerContext_def split: sum.splits)

lemma MarkerPopup_under_MapMarker:
  "MarkerPopup (Provided (Some m)) (Provided (Some c)) = Inr (m, map_engine c)"
  by (simp add: MarkerPopup_def useContext_def useMap_def)

lemma MarkerTooltip_under_MapMarker:
  "MarkerTooltip (Provided (Some m)) (Provided (Some c)) = Inr (m, map_engine c)"
  by (simp add: MarkerTooltip_def useContext_def useMap_def)

text \<open>
  Claim C1 says that \<open>useMap\<close>, like \<open>MarkerPopup\<close> and \<open>MarkerTooltip\<close>, throws when
  used outside its parent. The code of \<open>useMap\<close> tests \<open>!context\<close> and has the message
  "useMap must be used within a Map component", but the default of \<open>MapContext\<close> is the
  object \<open>{ map: null, isLoaded: false }\<close>, not \<open>null\<close>: with no \<open>Map\<close> above, \<open>useMap\<close>
  returns that default and does not throw.
\<close>

theorem C1_useMap_outside_Map_returns_default:
  "useMap NoProvider = Inr \<lparr>map_engine = None, isLoaded = False\<rparr>"
  by (simp add: useMap_def useContext_def MapContext_def)


lemma useMap_under_a_Map: "useMap (Map_provides s) = Inr \<lparr>map_engine = mapInstance s, isLoaded = isLoaded_st s\<rparr>"
  by (simp add: Map_provides_def useMap_under_Map)

lemma useMap_never_throws: "\<exists>c. useMap (case v of None \<Rightarrow> NoProvider | Some x \<Rightarrow> Provided (Some x)) = Inr c"
  by (cases v) (simp_all add: useMap_def useContext_def MapContext_def)

section \<open>Cleanup of the Map component\<close>

lemma str_includes_sublist: "str_includes s sub \<longleftrightarrow> sublist sub s"
  by (induction s) (auto simp: sublist_Cons_right)

lemma Map_cleanup_catch_keeps [simp]:
  "engines (Map_cleanup_catch x s) = engines s"
  "mapInstance (Map_cleanup_catch x s) = mapInstance s"
  by (cases x; simp)+

text \<open>
  Claim C2 says that of the errors \<open>remove()\<close> may throw, those whose message contains
  "aborted" are dropped and any other is logged. The \<open>catch\<close> block logs only under
  \<open>error instanceof Error\<close>: a thrown value that is not an \<open>Error\<close> is dropped without
  a log line as well, whatever it says.
\<close>

theorem C2_non_Error_not_logged:
  "console (snd (Map_cleanup (Threw (NonError ''boom''))
      \<lparr>mapContainer = True, mapInstance = Some 0, isLoaded_st = True,
       engines = [0], created = 1, console = []\<rparr>)) = []"
  by (simp add: Map_cleanup_def engine_remove_def)

text \<open>
  Claim C2, amended. When the cleanup runs with an engine stored, whatever \<open>remove()\<close>
  does, nothing is thrown out of the cleanup, the stored engine is reset to \<open>null\<close> and
  \<open>isLoaded\<close> to false. The console gets one line exactly when \<open>remove()\<close> threw an
  \<open>Error\<close> whose message does not contain "aborted"; an \<open>Error\<close> with "aborted" in
  its message, a thrown value that is not an \<open>Error\<close>, and a normal return leave the
  console as it was.
\<close>

theorem C2_Map_cleanup_outcomes:
  assumes "mapInstance s = Some e"
  shows "fst (Map_cleanup out s) = None
       \<and> mapInstance (snd (Map_cleanup out s)) = None
       \<and> isLoaded_st (snd (Map_cleanup out s)) = False
       \<and> console (snd (Map_cleanup out s)) =
           (case out of
              Returned \<Rightarrow> console s
            | Threw (JsError message) \<Rightarrow>
                if str_includes message ''aborted'' then console s
                else console s @ [JsError message]
            | Threw (NonError v) \<Rightarrow> console s)"
  using assms
  by (auto simp: Map_cleanup_def engine_remove_def Let_def split: outcome.splits thrown.splits)

theorem C2_Map_cleanup_outcomes_witness:
  "fst (Map_cleanup (Threw (JsError ''WebGL context lost''))
      \<lparr>mapContainer = True, mapInstance = Some 0, isLoaded_st = True,
       engines = [0], created = 1, console = []\<rparr>) = None
   \<and> console (snd (Map_cleanup (Threw (JsError ''WebGL context lost''))
      \<lparr>mapContainer = True, mapInstance = Some 0, isLoaded_st = True,
       engines = [0], created = 1, console = []\<rparr>)) = [JsError ''WebGL context lost'']
   \<and> console (snd (Map_cleanup (Threw (JsError ''The operation was aborted.''))
      \<lparr>mapContainer = True, mapInstance = Some 0, isLoaded_st = True,
       engines = [0], created = 1, console = []\<rparr>)) = []"
  using
    C2_Map_cleanup_outcomes [of "\<lparr>mapContainer = True, mapInstance = Some 0, isLoaded_st = True,
       engines = [0], created = 1, console = []\<rparr>" 0 "Threw (JsError ''WebGL context lost'')"]
    C2_Map_cleanup_outcomes [of "\<lparr>mapContainer = True, mapInstance = Some 0, isLoaded_st = True,
       engines = [0], created = 1, console = []\<rparr>" 0 "Threw (JsError ''The operation was aborted.'')"]
  by simp

section \<open>One engine per Map\<close>

lemma Map_inv_step: "Map_inv s \<Longrightarrow> Map_inv (Map_step s ev)"
  by (cases ev)
     (auto simp: Map_inv_def Map_init_effect_def Map_cleanup_def engine_remove_def engine_load_def
                 Let_def split: option.splits outcome.splits prod.splits)

lemma Map_inv_foldl: "Map_inv s \<Longrightarrow> Map_inv (foldl Map_step s evs)"
  by (induction evs arbitrary: s) (simp_all add: Map_inv_step)

lemma Map_inv_run: "Map_inv (Map_run evs)"
  unfolding Map_run_def by (rule Map_inv_foldl) (simp add: Map_inv_def Map_initial_def)

lemma Map_unloaded_step:
  "Map_inv s \<Longrightarrow> (mapInstance s = None \<longrightarrow> \<not> isLoaded_st s) \<Longrightarrow>
     mapInstance (Map_step s ev) = None \<longrightarrow> \<not> isLoaded_st (Map_step s ev)"
  by (cases ev)
     (auto simp: Map_inv_def Map_init_effect_def Map_cleanup_def engine_remove_def engine_load_def
                 Let_def split: option.splits outcome.splits prod.splits)

lemma Map_unloaded_foldl:
  "Map_inv s \<Longrightarrow> (mapInstance s = None \<longrightarrow> \<not> isLoaded_st s) \<Longrightarrow>
     mapInstance (foldl Map_step s evs) = None \<longrightarrow> \<not> isLoaded_st (foldl Map_step s evs)"
proof (induction evs arbitrary: s)
  case Nil
  then show ?case by simp
next
  case (Cons ev evs)
  have "Map_inv (Map_step s ev)"
    using Cons.prems(1) by (rule Map_inv_step)
  moreover have "mapInstance (Map_step s ev) = None \<longrightarrow> \<not> isLoaded_st (Map_step s ev)"
    using Cons.prems by (rule Map_unloaded_step)
  ultimately show ?case
    using Cons.IH [of "Map_step s ev"] by simp
qed

text \<open>
  With no engine stored the cleanup does nothing; in every state a \<open>Map\<close> can reach,
  \<open>isLoaded\<close> is then false already, so the cleanup always ends with both reset.
\<close>

lemma Map_cleanup_resets:
  "mapInstance (snd (Map_cleanup out (Map_run evs))) = None
   \<and> \<not> isLoaded_st (snd (Map_cleanup out (Map_run evs)))"
proof -
  have "mapInstance (Map_run evs) = None \<longrightarrow> \<not> isLoaded_st (Map_run evs)"
    unfolding Map_run_def
    by (rule Map_unloaded_foldl) (simp_all add: Map_inv_def Map_initial_def)
  then show ?thesis
    by (auto simp: Map_cleanup_def engine_remove_def Let_def split: option.splits outcome.splits)
qed

text \<open>
  Claim C5. Whatever happens to a \<open>Map\<close>, and in whatever order, it holds at most one
  engine at any time (an engine it has constructed and not yet handed to \<open>remove()\<close>),
  and that one is the stored instance. The initialisation effect run while an instance
  is stored changes nothing and returns no cleanup; it constructs an engine only when
  none is stored; and after the cleanup the stored instance is \<open>null\<close>.
\<close>

theorem C5_single_engine:
  "length (engines (Map_run evs)) \<le> 1
   \<and> set (engines (Map_run evs)) = set_option (mapInstance (Map_run evs))
   \<and> Map_init_effect (s\<lparr>mapInstance := Some e\<rparr>) = (s\<lparr>mapInstance := Some e\<rparr>, False)
   \<and> (engines (fst (Map_init_effect s)) \<noteq> engines s \<longrightarrow> mapInstance s = None)
   \<and> mapInstance (snd (Map_cleanup out s)) = None"
proof -
  have "Map_inv (Map_run evs)" by (rule Map_inv_run)
  then have "length (engines (Map_run evs)) \<le> 1"
    and "set (engines (Map_run evs)) = set_option (mapInstance (Map_run evs))"
    by (auto simp: Map_inv_def split: option.splits)
  moreover have "Map_init_effect (s\<lparr>mapInstance := Some e\<rparr>) = (s\<lparr>mapInstance := Some e\<rparr>, False)"
    by (simp add: Map_init_effect_def)
  moreover have "engines (fst (Map_init_effect s)) \<noteq> engines s \<longrightarrow> mapInstance s = None"
    by (simp add: Map_init_effect_def)
  moreover have "mapInstance (snd (Map_cleanup out s)) = None"
    by (simp add: Map_cleanup_def engine_remove_def Let_def split: option.splits outcome.splits)
  ultimately show ?thesis by blast
qed

theorem C5_single_engine_witness:
  "length (engines (Map_run [Attach, InitEffect, Load 0, InitEffect,
        Cleanup (Threw (JsError ''aborted'')), InitEffect])) \<le> 1
   \<and> mapInstance (Map_run [Attach, InitEffect, Load 0, InitEffect,
        Cleanup (Threw (JsError ''aborted'')), InitEffect]) = Some 1
   \<and> engines (fst (Map_init_effect (Map_run [Attach]))) \<noteq> engines (Map_run [Attach])
   \<and> mapInstance (Map_run [Attach]) = None"
  using
    C5_single_engine [where evs = "[Attach, InitEffect, Load 0, InitEffect,
        Cleanup (Threw (JsError ''aborted'')), InitEffect]" and s = "Map_run [Attach]"]
  by (simp add: Map_run_def Map_initial_def Map_init_effect_def Map_cleanup_def engine_remove_def
        engine_load_def)

section \<open>Rounding in a ButtonGroup\<close>

lemma ButtonGroup_length: "length (ButtonGroup pill children) = length children"
  by (simp add: ButtonGroup_def Children_map_def)

lemma ButtonGroup_nth:
  "i < length children \<Longrightarrow>
     ButtonGroup pill children ! i =
       ButtonGroup_child pill (int (length children)) (children ! i) (int i)"
  by (simp add: ButtonGroup_def Children_map_def Children_count_def nth_enumerate_eq)

lemma ButtonGroup_not_element:
  "\<not> isValidElement child \<Longrightarrow> ButtonGroup_child pill n child i = child"
  by (cases child) simp_all

lemma ButtonGroup_classes_iff:
  "Some ''rounded-l-md'' \<in> set (ButtonGroup_classes pill n i) \<longleftrightarrow> i = 0"
  "Some ''rounded-r-md'' \<in> set (ButtonGroup_classes pill n i) \<longleftrightarrow> i = n - 1"
  "Some ''rounded-none'' \<in> set (ButtonGroup_classes pill n i) \<longleftrightarrow> i \<noteq> 0 \<and> i \<noteq> n - 1"
  "Some ''rounded-l-full'' \<in> set (ButtonGroup_classes pill n i) \<longleftrightarrow> pill = Some True \<and> i = 0"
  "Some ''rounded-r-full'' \<in> set (ButtonGroup_classes pill n i) \<longleftrightarrow> pill = Some True \<and> i = n - 1"
  by (auto simp: ButtonGroup_classes_def and_class_def truthy_def split: if_splits)

lemma ButtonGroup_single:
  "ButtonGroup pill [child] = [ButtonGroup_child pill 1 child 0]"
  by (simp add: ButtonGroup_def Children_map_def Children_count_def)

text \<open>
  Claim C3 gives the left rounding to the child at index 0 and the right rounding to the
  child at the last index. The indices count every child, and only a valid element is
  cloned: a string at index 0, or an empty node (a condition that came out false) at the
  last index, is returned as it is and receives nothing.
\<close>

theorem C3_non_element_edge_child:
  "\<not> receives (ButtonGroup None [Text ''Save'', Element ''button'' (Plain None)] ! 0)
        ''rounded-l-md''
   \<and> \<not> receives (ButtonGroup None
          [Element ''button'' (Plain None), Element ''button'' (Plain None), Empty] ! 2)
        ''rounded-r-md''"
  by (simp add: ButtonGroup_nth)

text \<open>
  Claim C3, amended. In every \<open>ButtonGroup\<close>, with positions counted over all the
  children, a child that is a valid element receives the left-rounding class exactly at
  index 0, the right-rounding class exactly at the last index, \<open>rounded-none\<close> exactly
  strictly in between, and the full-rounding variant of each exactly when \<open>pill\<close> is
  set; a child that is not a valid element is returned unchanged and receives no class.
\<close>

theorem C3_ButtonGroup_rounding:
  assumes "i < length children"
  shows "(isValidElement (children ! i) \<longrightarrow>
            (receives (ButtonGroup pill children ! i) ''rounded-l-md'' \<longleftrightarrow> i = 0)
          \<and> (receives (ButtonGroup pill children ! i) ''rounded-r-md''
               \<longleftrightarrow> Suc i = length children)
          \<and> (receives (ButtonGroup pill children ! i) ''rounded-none''
               \<longleftrightarrow> 0 < i \<and> Suc i < length children)
          \<and> (receives (ButtonGroup pill children ! i) ''rounded-l-full''
               \<longleftrightarrow> pill = Some True \<and> i = 0)
          \<and> (receives (ButtonGroup pill children ! i) ''rounded-r-full''
               \<longleftrightarrow> pill = Some True \<and> Suc i = length children))
       \<and> (\<not> isValidElement (children ! i) \<longrightarrow>
            ButtonGroup pill children ! i = children ! i
          \<and> \<not> receives (ButtonGroup pill children ! i) x)"
proof (cases "children ! i")
  case (Element t c)
  then show ?thesis
    using assms by (auto simp: ButtonGroup_nth ButtonGroup_classes_iff)
next
  case (Text x)
  then show ?thesis using assms by (simp add: ButtonGroup_nth)
next
  case Empty
  then show ?thesis using assms by (simp add: ButtonGroup_nth)
qed

theorem C3_ButtonGroup_rounding_witness:
  "receives (ButtonGroup (Some True)
       [Element ''button'' (Plain None), Element ''button'' (Plain (Some ''w-10'')),
        Element ''button'' (Plain None)] ! 1) ''rounded-none''
   \<and> \<not> receives (ButtonGroup (Some True)
       [Element ''button'' (Plain None), Element ''button'' (Plain (Some ''w-10'')),
        Element ''button'' (Plain None)] ! 1) ''rounded-l-md''
   \<and> receives (ButtonGroup (Some True)
       [Element ''button'' (Plain None), Element ''button'' (Plain (Some ''w-10'')),
        Element ''button'' (Plain None)] ! 2) ''rounded-r-full''
   \<and> ButtonGroup None [Element ''button'' (Plain None), Text ''or''] ! 1 = Text ''or''"
  using
    C3_ButtonGroup_rounding [of 1 "[Element ''button'' (Plain None),
        Element ''button'' (Plain (Some ''w-10'')), Element ''button'' (Plain None)]" "Some True"]
    C3_ButtonGroup_rounding [of 2 "[Element ''button'' (Plain None),
        Element ''button'' (Plain (Some ''w-10'')), Element ''button'' (Plain None)]" "Some True"]
    C3_ButtonGroup_rounding [of 1 "[Element ''button'' (Plain None), Text ''or'']" None]
  by simp

text \<open>
  Claim C10 rounds the only valid element child on both ends. The positions are those
  among all the children: with an empty node before it, the only valid element is last
  but not first, and does not receive the left rounding.
\<close>

theorem C10_one_element_after_empty_node:
  "length (filter isValidElement [Empty, Element ''button'' (Plain None)]) = 1
   \<and> \<not> receives (ButtonGroup None [Empty, Element ''button'' (Plain None)] ! 1) ''rounded-l-md''"
  by (simp add: ButtonGroup_nth ButtonGroup_classes_iff)

text \<open>
  Claim C10, amended. When a \<open>ButtonGroup\<close> has exactly one child and that child is a
  valid element, it receives both the left-rounding and the right-rounding class, and
  both full-rounding classes exactly when \<open>pill\<close> is set. In any \<open>ButtonGroup\<close>, a child
  that is not a valid element is returned unchanged.
\<close>

theorem C10_single_child:
  "ButtonGroup pill [Element t c] = [Element t (Merged c (ButtonGroup_classes pill 1 0))]
   \<and> receives (ButtonGroup pill [Element t c] ! 0) ''rounded-l-md''
   \<and> receives (ButtonGroup pill [Element t c] ! 0) ''rounded-r-md''
   \<and> (receives (ButtonGroup pill [Element t c] ! 0) ''rounded-l-full'' \<longleftrightarrow> pill = Some True)
   \<and> (receives (ButtonGroup pill [Element t c] ! 0) ''rounded-r-full'' \<longleftrightarrow> pill = Some True)
   \<and> (\<forall>i < length children. \<not> isValidElement (children ! i) \<longrightarrow>
         ButtonGroup pill children ! i = children ! i)"
  by (simp add: ButtonGroup_single ButtonGroup_classes_iff ButtonGroup_nth ButtonGroup_not_element)

theorem C10_single_child_witness:
  "receives (ButtonGroup (Some True) [Element ''button'' (Plain None)] ! 0) ''rounded-l-full''
   \<and> receives (ButtonGroup (Some True) [Element ''button'' (Plain None)] ! 0) ''rounded-r-full''
   \<and> ButtonGroup (Some True) [Empty, Element ''button'' (Plain None)] ! 0 = Empty"
proof -
  have w: "receives (ButtonGroup (Some True) [Element ''button'' (Plain None)] ! 0) ''rounded-l-full''
      = (Some True = Some True)"
    "receives (ButtonGroup (Some True) [Element ''button'' (Plain None)] ! 0) ''rounded-r-full''
      = (Some True = Some True)"
    "\<forall>i < length [Empty, Element ''button'' (Plain None)].
       \<not> isValidElement ([Empty, Element ''button'' (Plain None)] ! i) \<longrightarrow>
         ButtonGroup (Some True) [Empty, Element ''button'' (Plain None)] ! i
           = [Empty, Element ''button'' (Plain None)] ! i"
    using C10_single_child [of "Some True" "''button''" "Plain None"
            "[Empty, Element ''button'' (Plain None)]"]
    by blast+
  from w(3) have "ButtonGroup (Some True) [Empty, Element ''button'' (Plain None)] ! 0 = Empty"
    by force
  with w(1,2) show ?thesis by simp
qed

section \<open>Steps of a Stepper\<close>

lemma num_less_NaN [simp]: "\<not> num_less a NaN" "\<not> num_less NaN a"
  by (cases a; simp)+

lemma num_less_irrefl [simp]: "\<not> num_less a a"
  by (cases a) simp_all

lemma num_eq_Num [simp]: "num_eq (Num a) (Num b) = (a = b)"
  by (simp add: num_eq_def)

lemma StepperItem_attrs:
  "attrs (StepperItem p className v disabled props) k =
     (if k \<notin> set [''className'', ''value'', ''disabled'', ''children''] \<and> props k \<noteq> None
      then map_option Val (props k)
      else [''className'' \<mapsto>
              Cn [Some ''flex w-full items-center'',
                  and_class
                    (\<not> (truthy disabled \<or> num_less (activeStep (useContext StepperContext p)) v))
                    ''cursor-pointer'',
                  className],
            ''data-active'' \<mapsto> Val (JBool (num_eq (activeStep (useContext StepperContext p)) v)),
            ''data-completed'' \<mapsto>
              Val (JBool (num_less v (activeStep (useContext StepperContext p)))),
            ''data-disabled'' \<mapsto>
              Val (JBool (truthy disabled \<or> num_less (activeStep (useContext StepperContext p)) v)),
            ''onClick'' \<mapsto>
              OnClick (\<lambda>s. if \<not> (truthy disabled
                                  \<or> num_less (activeStep (useContext StepperContext p)) v)
                            then (case setActiveStep (useContext StepperContext p) of
                                    Some f \<Rightarrow> f v s | None \<Rightarrow> s)
                            else s)] k)"
  by (auto simp: StepperItem_def jsx_def without_def Let_def map_add_def split: option.splits)

lemma useContext_Stepper:
  "useContext StepperContext (Stepper onChange s) =
     \<lparr>activeStep = activeStep_st s, setActiveStep = Some (handleStepChange onChange)\<rparr>"
  by (simp add: useContext_def Stepper_def)

lemma Stepper_value_effect_sets: "activeStep_st (Stepper_value_effect (Some a) s) = a"
  by (simp add: Stepper_value_effect_def dflt_def)

lemma click_StepperItem:
  "click caller (StepperItem p className v disabled props) s =
     (case props ''onClick'' of
        Some (JFun g) \<Rightarrow> caller g s
      | Some x \<Rightarrow> s
      | None \<Rightarrow>
          if truthy disabled \<or> num_less (activeStep (useContext StepperContext p)) v then s
          else (case setActiveStep (useContext StepperContext p) of
                  Some f \<Rightarrow> f v s | None \<Rightarrow> s))"
  by (auto simp: click_def StepperItem_attrs split: option.splits js.splits)

lemma click_outside_Stepper:
  "props ''onClick'' = None \<Longrightarrow>
     click caller (StepperItem NoProvider className v disabled props) s = s"
  by (simp add: click_StepperItem useContext_def StepperContext_def)

text \<open>
  Claim C4 ties the three marks of every \<open>StepperItem\<close> to its step and the active
  step. The marks are the attributes \<open>data-active\<close>, \<open>data-completed\<close> and
  \<open>data-disabled\<close>, and the remaining props of the item are spread after them: an item
  that is given \<open>data-active\<close> itself carries the given value, here false on the active
  step.
\<close>

theorem C4_data_active_overridden:
  "attrs (StepperItem (Stepper False \<lparr>activeStep_st = Num 1, onChange_calls = []\<rparr>) None (Num 1)
            None [''data-active'' \<mapsto> JBool False]) ''data-active''
     = Some (Val (JBool False))"
  by (simp add: StepperItem_attrs)

text \<open>
  Claim C4, amended. For every \<open>StepperItem\<close> with step value \<open>v\<close> rendered under a
  \<open>Stepper\<close> whose active step is \<open>a\<close>, each mark that its remaining props do not set
  themselves is computed by the item: it is marked active if and only if \<open>a = v\<close>,
  completed if and only if \<open>a > v\<close>, and disabled if and only if its \<open>disabled\<close> prop is
  true or \<open>a < v\<close>. The comparisons are JavaScript's \<open>===\<close>, \<open>>\<close> and \<open><\<close>: on
  ordinary numbers they are the usual ones, and \<open>NaN\<close> is equal to, greater than and
  less than nothing.
\<close>

theorem C4_StepperItem_marks:
  "(props ''data-active'' = None \<longrightarrow>
      attrs (StepperItem (Stepper onChange s) className v disabled props) ''data-active''
        = Some (Val (JBool (num_eq (activeStep_st s) v))))
   \<and> (props ''data-completed'' = None \<longrightarrow>
      attrs (StepperItem (Stepper onChange s) className v disabled props) ''data-completed''
        = Some (Val (JBool (num_less v (activeStep_st s)))))
   \<and> (props ''data-disabled'' = None \<longrightarrow>
      attrs (StepperItem (Stepper onChange s) className v disabled props) ''data-disabled''
        = Some (Val (JBool (disabled = Some True \<or> num_less (activeStep_st s) v))))
   \<and> (activeStep_st s = Num a \<and> v = Num b \<longrightarrow>
        (props ''data-active'' = None \<longrightarrow>
           attrs (StepperItem (Stepper onChange s) className v disabled props) ''data-active''
             = Some (Val (JBool (a = b))))
      \<and> (props ''data-completed'' = None \<longrightarrow>
           attrs (StepperItem (Stepper onChange s) className v disabled props) ''data-completed''
             = Some (Val (JBool (a > b))))
      \<and> (props ''data-disabled'' = None \<longrightarrow>
           attrs (StepperItem (Stepper onChange s) className v disabled props) ''data-disabled''
             = Some (Val (JBool (disabled = Some True \<or> a < b)))))"
  by (simp add: StepperItem_attrs useContext_Stepper truthy_def)

theorem C4_StepperItem_marks_witness:
  "attrs (StepperItem (Stepper False \<lparr>activeStep_st = Num 2, onChange_calls = []\<rparr>) None (Num 1)
            None [''id'' \<mapsto> JStr ''step-1'']) ''data-active'' = Some (Val (JBool False))
   \<and> attrs (StepperItem (Stepper False \<lparr>activeStep_st = Num 2, onChange_calls = []\<rparr>) None (Num 1)
            None [''id'' \<mapsto> JStr ''step-1'']) ''data-completed'' = Some (Val (JBool True))
   \<and> attrs (StepperItem (Stepper False \<lparr>activeStep_st = Num 2, onChange_calls = []\<rparr>) None (Num 1)
            None [''id'' \<mapsto> JStr ''step-1'']) ''data-disabled'' = Some (Val (JBool False))"
  using C4_StepperItem_marks [where props = "[''id'' \<mapsto> JStr ''step-1'']" and onChange = False
          and s = "\<lparr>activeStep_st = Num 2, onChange_calls = []\<rparr>" and className = None
          and v = "Num 1" and disabled = None and a = 2 and b = 1]
  by simp




section \<open>Selection of a ListItem\<close>

lemma class_tokens_Nil: "class_tokens [] = []"
  by (simp add: class_tokens_def List.map_filter_simps)

lemma class_tokens_Cons:
  "class_tokens (a # as) = (case a of None \<Rightarrow> [] | Some s \<Rightarrow> class_words s) @ class_tokens as"
  by (cases a) (simp_all add: class_tokens_def List.map_filter_simps)

lemma ListItem_base_words:
  "class_words ''flex items-center gap-3 rounded-md px-3 py-2 text-sm transition-colors'' =
     [''flex'', ''items-center'', ''gap-3'', ''rounded-md'', ''px-3'', ''py-2'', ''text-sm'',
      ''transition-colors'']"
  "class_words ''hover:bg-accent hover:text-accent-foreground'' =
     [''hover:bg-accent'', ''hover:text-accent-foreground'']"
  "class_words ''focus-visible:ring-ring focus-visible:ring-2 focus-visible:ring-offset-2 focus-visible:outline-none'' =
     [''focus-visible:ring-ring'', ''focus-visible:ring-2'', ''focus-visible:ring-offset-2'',
      ''focus-visible:outline-none'']"
  by (simp_all add: class_words_def)

lemma ListItem_state_words:
  "class_words ''bg-accent text-accent-foreground'' = [''bg-accent'', ''text-accent-foreground'']"
  "class_words ''pointer-events-none opacity-50'' = [''pointer-events-none'', ''opacity-50'']"
  by (simp_all add: class_words_def)

lemma ListItem_attrs:
  "attrs (ListItem className asChild selected disabled props) k =
     (if k \<notin> set [''className'', ''asChild'', ''selected'', ''disabled''] \<and> props k \<noteq> None
      then map_option Val (props k)
      else [''data-slot'' \<mapsto> Val (JStr ''list-item''),
            ''data-selected'' \<mapsto> Val (JBool (dflt False selected)),
            ''data-disabled'' \<mapsto> Val (JBool (dflt False disabled)),
            ''className'' \<mapsto>
              Cn [Some ''flex items-center gap-3 rounded-md px-3 py-2 text-sm transition-colors'',
                  Some ''hover:bg-accent hover:text-accent-foreground'',
                  Some ''focus-visible:ring-ring focus-visible:ring-2 focus-visible:ring-offset-2 focus-visible:outline-none'',
                  and_class (dflt False selected) ''bg-accent text-accent-foreground'',
                  and_class (dflt False disabled) ''pointer-events-none opacity-50'',
                  className]] k)"
  by (auto simp: ListItem_def jsx_def without_def Let_def map_add_def split: option.splits)

lemma ListItem_tokens:
  "element_class_tokens (ListItem className asChild selected disabled props) =
     [''flex'', ''items-center'', ''gap-3'', ''rounded-md'', ''px-3'', ''py-2'', ''text-sm'',
      ''transition-colors'', ''hover:bg-accent'', ''hover:text-accent-foreground'',
      ''focus-visible:ring-ring'', ''focus-visible:ring-2'', ''focus-visible:ring-offset-2'',
      ''focus-visible:outline-none'']
     @ (if dflt False selected then [''bg-accent'', ''text-accent-foreground''] else [])
     @ (if dflt False disabled then [''pointer-events-none'', ''opacity-50''] else [])
     @ class_tokens [className]"
  unfolding element_class_tokens_def ListItem_attrs
  by (simp add: class_tokens_Cons class_tokens_Nil ListItem_base_words ListItem_state_words
        and_class_def)

text \<open>
  Claim C7 says that an unselected \<open>ListItem\<close> has none of the selected classes and
  that a selected one carries \<open>data-selected\<close> true. The caller's \<open>className\<close> is the
  last argument of \<open>cn\<close> and the caller's remaining props are spread last: an
  unselected item whose \<open>className\<close> is the selected look carries those classes, and a
  selected item that is given \<open>data-selected\<close> itself carries the given value.
\<close>

theorem C7_selected_look_from_caller:
  "''bg-accent'' \<in> set (element_class_tokens
      (ListItem (Some ''bg-accent text-accent-foreground'') None (Some False) None Map.empty))
   \<and> attrs (ListItem None None (Some True) None [''data-selected'' \<mapsto> JBool False])
        ''data-selected''
       = Some (Val (JBool False))"
  by (simp add: ListItem_tokens ListItem_attrs class_tokens_Cons class_tokens_Nil
        ListItem_state_words)

text \<open>
  Claim C7, amended. For every \<open>ListItem\<close> whose remaining props do not set
  \<open>data-selected\<close> themselves, the rendered element carries \<open>data-selected\<close> true
  (React writes "true") when the \<open>selected\<close> prop is true and false ("false") when it
  is false or absent. Each of the classes \<open>bg-accent\<close> and \<open>text-accent-foreground\<close>
  is among the classes of the element when \<open>selected\<close> is true; when it is false or
  absent, the class is there only if the caller's own \<open>className\<close> has it.
\<close>

theorem C7_ListItem_selected:
  "(props ''data-selected'' = None \<longrightarrow>
      attrs (ListItem className asChild selected disabled props) ''data-selected''
        = Some (Val (JBool (selected = Some True))))
   \<and> (\<forall>t \<in> {''bg-accent'', ''text-accent-foreground''}.
        t \<in> set (element_class_tokens (ListItem className asChild selected disabled props))
          \<longleftrightarrow> selected = Some True \<or> t \<in> set (class_tokens [className]))"
  unfolding ListItem_tokens
  by (cases selected) (auto simp: ListItem_attrs dflt_def)

theorem C7_ListItem_selected_witness:
  "attrs (ListItem (Some ''w-full'') None (Some True) None [''id'' \<mapsto> JStr ''inbox''])
        ''data-selected'' = Some (Val (JBool True))
   \<and> ''bg-accent'' \<in> set (element_class_tokens
        (ListItem (Some ''w-full'') None (Some True) None [''id'' \<mapsto> JStr ''inbox'']))
   \<and> attrs (ListItem (Some ''w-full'') None None None [''id'' \<mapsto> JStr ''inbox''])
        ''data-selected'' = Some (Val (JBool False))
   \<and> ''bg-accent'' \<notin> set (element_class_tokens
        (ListItem (Some ''w-full'') None None None [''id'' \<mapsto> JStr ''inbox'']))"
  using
    C7_ListItem_selected [of "[''id'' \<mapsto> JStr ''inbox'']" "Some ''w-full''" None "Some True" None]
    C7_ListItem_selected [of "[''id'' \<mapsto> JStr ''inbox'']" "Some ''w-full''" None None None]
  by (simp add: class_tokens_Cons class_tokens_Nil class_words_def)

section \<open>What the Toaster hands to the toast engine\<close>

lemma Toaster_attrs:
  "attrs (Toaster th props) k =
     (case props k of Some v \<Rightarrow> Some (Val v)
      | None \<Rightarrow>
          [''theme'' \<mapsto> Val (JStr (dflt ''system'' th)),
            ''className'' \<mapsto>
              Cn [Some ''toaster group [&>li]:flex [&>li]:items-start [&>li]:gap-3''],
            ''icons'' \<mapsto>
              Val (JObj
                [(''success'', JElem ''CircleCheckIcon''
                    [(''className'', JStr ''mt-0.5 size-4 shrink-0 text-green-500'')]),
                 (''info'', JElem ''InfoIcon''
                    [(''className'', JStr ''mt-0.5 size-4 shrink-0 text-blue-500'')]),
                 (''warning'', JElem ''TriangleAlertIcon''
                    [(''className'', JStr ''mt-0.5 size-4 shrink-0 text-yellow-500'')]),
                 (''error'', JElem ''OctagonXIcon''
                    [(''className'', JStr ''mt-0.5 size-4 shrink-0 text-red-500'')]),
                 (''loading'', JElem ''Loader2Icon''
                    [(''className'', JStr ''mt-0.5 size-4 shrink-0 animate-spin'')])]),
            ''style'' \<mapsto>
              Val (JObj
                [(''--normal-bg'', JStr ''var(--popover)''),
                 (''--normal-text'', JStr ''var(--popover-foreground)''),
                 (''--normal-border'', JStr ''var(--border)''),
                 (''--border-radius'', JStr ''var(--radius)'')])] k)"
  by (simp add: Toaster_def jsx_def Let_def map_add_def split: option.splits)

text \<open>
  Claim C8 says that every render of \<open>Toaster\<close> passes the resolved theme and the five
  icons. The props of \<open>Toaster\<close> are the props of the toast engine's component and are
  spread after \<open>theme\<close> and \<open>icons\<close>: a \<open>theme\<close> prop replaces the resolved theme, and
  an \<open>icons\<close> prop replaces the whole icon table.
\<close>

theorem C8_caller_theme_and_icons_win:
  "attrs (Toaster (Some ''light'') [''theme'' \<mapsto> JStr ''dark'']) ''theme''
     = Some (Val (JStr ''dark''))
   \<and> icon_statuses
        (attrs (Toaster None [''icons'' \<mapsto> JObj [(''success'', JElem ''Check'' [])]]) ''icons'')
       = [''success'']"
  by (simp add: Toaster_attrs)

text \<open>
  Claim C8, amended. For every render of \<open>Toaster\<close>, the toast engine is passed the
  resolved theme ("system" when the theme hook yields none) unless the props of
  \<open>Toaster\<close> have a \<open>theme\<close>, and an icon for each of \<open>success\<close>, \<open>info\<close>,
  \<open>warning\<close>, \<open>error\<close> and \<open>loading\<close> unless the props have \<open>icons\<close>; every prop
  given to \<open>Toaster\<close> reaches the engine as given.
\<close>

theorem C8_Toaster_forwards:
  "(props ''theme'' = None \<longrightarrow>
      attrs (Toaster th props) ''theme''
        = Some (Val (JStr (case th of None \<Rightarrow> ''system'' | Some t \<Rightarrow> t))))
   \<and> (props ''icons'' = None \<longrightarrow>
      icon_statuses (attrs (Toaster th props) ''icons'')
        = [''success'', ''info'', ''warning'', ''error'', ''loading''])
   \<and> (\<forall>k v. props k = Some v \<longrightarrow> attrs (Toaster th props) k = Some (Val v))"
  by (simp add: Toaster_attrs dflt_def)

theorem C8_Toaster_forwards_witness:
  "attrs (Toaster None [''position'' \<mapsto> JStr ''top-right'']) ''theme''
     = Some (Val (JStr ''system''))
   \<and> icon_statuses (attrs (Toaster None [''position'' \<mapsto> JStr ''top-right'']) ''icons'')
       = [''success'', ''info'', ''warning'', ''error'', ''loading'']
   \<and> attrs (Toaster None [''position'' \<mapsto> JStr ''top-right'']) ''position''
       = Some (Val (JStr ''top-right''))"
  using C8_Toaster_forwards [of "[''position'' \<mapsto> JStr ''top-right'']" None]
  by simp

section \<open>Teardown of routes and cluster layers\<close>

lemma filter_absent: "i \<notin> fst ` set ls \<Longrightarrow> filter (\<lambda>l. fst l \<noteq> i) ls = ls"
  by (induction ls) auto

text \<open>
  What the existence checks and the order of the removals are for: removing a layer
  that is not there is an error, and a source is kept while a layer draws it.
\<close>

lemma removeLayer_absent: "\<not> getLayer i m \<Longrightarrow> \<exists>e. removeLayer i m = Inl e"
  by (simp add: removeLayer_def)

lemma removeSource_absent: "\<not> getSource i m \<Longrightarrow> \<exists>e. removeSource i m = Inl e"
  by (simp add: removeSource_def)

lemma removeSource_while_drawn:
  "getSource i m \<Longrightarrow> (l, i) \<in> set (layers m) \<Longrightarrow> removeSource i m = Inr m"
  by (force simp: removeSource_def)

subsection \<open>On a live engine\<close>

lemma guarded_removeLayer:
  "andThen (style_read (getLayer i) (Live m)) (\<lambda>has.
     andThen (if has then style_change (removeLayer i) (Live m) else Inr (Live m)) k)
   = k (Live (m\<lparr>layers := filter (\<lambda>l. fst l \<noteq> i) (layers m)\<rparr>))"
proof (cases "getLayer i m")
  case True
  then show ?thesis by (simp add: andThen_def removeLayer_def)
next
  case False
  then have "filter (\<lambda>l. fst l \<noteq> i) (layers m) = layers m"
    by (simp add: getLayer_def filter_absent)
  with False show ?thesis by (simp add: andThen_def)
qed

lemma guarded_removeSource:
  "andThen (style_read (getSource i) (Live m)) (\<lambda>has.
     if has then style_change (removeSource i) (Live m) else Inr (Live m))
   = Inr (Live (if i \<in> snd ` set (layers m) then m else m\<lparr>sources := sources m - {i}\<rparr>))"
proof (cases "getSource i m")
  case True
  then show ?thesis by (simp add: andThen_def removeSource_def)
next
  case False
  then have "sources m - {i} = sources m"
    by (auto simp: getSource_def)
  with False show ?thesis by (simp add: andThen_def)
qed

lemma MapRoute_cleanup_live:
  "MapRoute_cleanup ident (Live m) =
     Inr (Live (let m1 = m\<lparr>layers := filter (\<lambda>l. fst l \<noteq> ''route-layer-'' @ ident) (layers m)\<rparr>
                in if ''route-'' @ ident \<in> snd ` set (layers m1) then m1
                   else m1\<lparr>sources := sources m1 - {''route-'' @ ident}\<rparr>))"
  unfolding MapRoute_cleanup_def Let_def
  by (simp only: guarded_removeLayer guarded_removeSource)

lemma MapClusterLayer_cleanup_live:
  "MapClusterLayer_cleanup (Live m) =
     Inr (Live (let m3 = m\<lparr>layers :=
                       filter (\<lambda>l. fst l \<noteq> ''clusters-layer'')
                         (filter (\<lambda>l. fst l \<noteq> ''cluster-count'')
                           (filter (\<lambda>l. fst l \<noteq> ''unclustered-point'') (layers m)))\<rparr>
                in if ''clusters'' \<in> snd ` set (layers m3) then m3
                   else m3\<lparr>sources := sources m3 - {''clusters''}\<rparr>))"
  unfolding MapClusterLayer_cleanup_def Let_def
  by (simp only: guarded_removeLayer guarded_removeSource) simp

text \<open>
  On a live engine the cleanups never fail, in any state of the style: they remove the
  layers that bear the component's ids and then, unless another layer still draws it,
  the source.
\<close>

lemma MapRoute_cleanup_result:
  "\<exists>m2. MapRoute_cleanup ident (Live m) = Inr (Live m2)
     \<and> layers m2 = filter (\<lambda>l. fst l \<noteq> ''route-layer-'' @ ident) (layers m)
     \<and> sources m2 = (if ''route-'' @ ident \<in> snd ` set (layers m2) then sources m
                      else sources m - {''route-'' @ ident})
     \<and> listeners m2 = listeners m"
  unfolding MapRoute_cleanup_live by (simp add: Let_def)

lemma MapClusterLayer_cleanup_result:
  "\<exists>m2. MapClusterLayer_cleanup (Live m) = Inr (Live m2)
     \<and> layers m2 = filter (\<lambda>l. fst l \<noteq> ''clusters-layer'')
                      (filter (\<lambda>l. fst l \<noteq> ''cluster-count'')
                        (filter (\<lambda>l. fst l \<noteq> ''unclustered-point'') (layers m)))
     \<and> sources m2 = (if ''clusters'' \<in> snd ` set (layers m2) then sources m
                      else sources m - {''clusters''})
     \<and> listeners m2 = listeners m"
  unfolding MapClusterLayer_cleanup_live by (simp add: Let_def)

lemma MapRoute_effect_fresh:
  assumes "map_engine c \<noteq> None" "isLoaded c"
    and "\<not> getSource (''route-'' @ ident) m" "\<not> getLayer (''route-layer-'' @ ident) m"
  shows "\<exists>m1. MapRoute_effect c ident interactive onClick onMouseEnter onMouseLeave (Live m)
                = Inr (Live m1, True)
           \<and> sources m1 = insert (''route-'' @ ident) (sources m)
           \<and> layers m1 = layers m @ [(''route-layer-'' @ ident, ''route-'' @ ident)]"
  using assms
  by (simp add: MapRoute_effect_def Let_def andThen_def addSource_def addLayer_def
        getSource_def getLayer_def on_layer_def)

text \<open>
  When the ids were unused in a well-formed style, the effect followed by the cleanup
  leaves the sources and the layers as they were: the layer goes first, so the source it
  drew can go.
\<close>

lemma MapRoute_roundtrip:
  assumes "map_engine c \<noteq> None" "isLoaded c" "wellformed m"
    and "\<not> getSource (''route-'' @ ident) m" "\<not> getLayer (''route-layer-'' @ ident) m"
  shows "\<exists>m1 m2. MapRoute_effect c ident interactive onClick onMouseEnter onMouseLeave (Live m)
                   = Inr (Live m1, True)
           \<and> MapRoute_cleanup ident (Live m1) = Inr (Live m2)
           \<and> sources m2 = sources m \<and> layers m2 = layers m"
proof -
  from MapRoute_effect_fresh [OF assms(1,2,4,5)] obtain m1 where
    e: "MapRoute_effect c ident interactive onClick onMouseEnter onMouseLeave (Live m)
          = Inr (Live m1, True)"
    and s1: "sources m1 = insert (''route-'' @ ident) (sources m)"
    and l1: "layers m1 = layers m @ [(''route-layer-'' @ ident, ''route-'' @ ident)]"
    by blast
  from MapRoute_cleanup_result [of ident m1] obtain m2 where
    c: "MapRoute_cleanup ident (Live m1) = Inr (Live m2)"
    and l2: "layers m2 = filter (\<lambda>l. fst l \<noteq> ''route-layer-'' @ ident) (layers m1)"
    and s2: "sources m2 = (if ''route-'' @ ident \<in> snd ` set (layers m2) then sources m1
                           else sources m1 - {''route-'' @ ident})"
    by blast
  have h: "''route-layer-'' @ ident \<notin> fst ` set (layers m)"
    using assms(5) by (simp add: getLayer_def)
  have n: "''route-'' @ ident \<notin> snd ` set (layers m)"
    using assms(3,4) by (auto simp: wellformed_def getSource_def)
  have s: "''route-'' @ ident \<notin> sources m"
    using assms(4) by (simp add: getSource_def)
  have "layers m2 = layers m"
    unfolding l2 l1 using h by (simp add: filter_absent)
  moreover from this have "sources m2 = sources m"
    unfolding s2 s1 using n s by simp
  ultimately show ?thesis using e c by blast
qed

lemma MapClusterLayer_effect_fresh:
  assumes "map_engine c \<noteq> None" "isLoaded c"
    and "\<not> getSource ''clusters'' m" "\<not> getLayer ''clusters-layer'' m"
        "\<not> getLayer ''cluster-count'' m" "\<not> getLayer ''unclustered-point'' m"
  shows "\<exists>m1. MapClusterLayer_effect c onPointClick onClusterClick (Live m) = Inr (Live m1, True)
           \<and> sources m1 = insert ''clusters'' (sources m)
           \<and> layers m1 = layers m @ [(''clusters-layer'', ''clusters''),
                                      (''cluster-count'', ''clusters''),
                                      (''unclustered-point'', ''clusters'')]"
  using assms
  by (simp add: MapClusterLayer_effect_def Let_def andThen_def addSource_def addLayer_def
        getSource_def getLayer_def on_layer_def)

lemma MapClusterLayer_roundtrip:
  assumes "map_engine c \<noteq> None" "isLoaded c" "wellformed m"
    and "\<not> getSource ''clusters'' m" "\<not> getLayer ''clusters-layer'' m"
        "\<not> getLayer ''cluster-count'' m" "\<not> getLayer ''unclustered-point'' m"
  shows "\<exists>m1 m2. MapClusterLayer_effect c onPointClick onClusterClick (Live m) = Inr (Live m1, True)
           \<and> MapClusterLayer_cleanup (Live m1) = Inr (Live m2)
           \<and> sources m2 = sources m \<and> layers m2 = layers m"
proof -
  from MapClusterLayer_effect_fresh [OF assms(1,2,4,5,6,7)] obtain m1 where
    e: "MapClusterLayer_effect c onPointClick onClusterClick (Live m) = Inr (Live m1, True)"
    and s1: "sources m1 = insert ''clusters'' (sources m)"
    and l1: "layers m1 = layers m @ [(''clusters-layer'', ''clusters''),
                                      (''cluster-count'', ''clusters''),
                                      (''unclustered-point'', ''clusters'')]"
    by blast
  from MapClusterLayer_cleanup_result [of m1] obtain m2 where
    c: "MapClusterLayer_cleanup (Live m1) = Inr (Live m2)"
    and l2: "layers m2 = filter (\<lambda>l. fst l \<noteq> ''clusters-layer'')
                      (filter (\<lambda>l. fst l \<noteq> ''cluster-count'')
                        (filter (\<lambda>l. fst l \<noteq> ''unclustered-point'') (layers m1)))"
    and s2: "sources m2 = (if ''clusters'' \<in> snd ` set (layers m2) then sources m1
                           else sources m1 - {''clusters''})"
    by blast
  have h: "''clusters-layer'' \<notin> fst ` set (layers m)"
      "''cluster-count'' \<notin> fst ` set (layers m)"
      "''unclustered-point'' \<notin> fst ` set (layers m)"
    using assms(5,6,7) by (simp_all add: getLayer_def)
  have n: "''clusters'' \<notin> snd ` set (layers m)"
    using assms(3,4) by (auto simp: wellformed_def getSource_def)
  have s: "''clusters'' \<notin> sources m"
    using assms(4) by (simp add: getSource_def)
  have "layers m2 = layers m"
    unfolding l2 l1 using h by (simp add: filter_absent)
  moreover from this have "sources m2 = sources m"
    unfolding s2 s1 using n s by simp
  ultimately show ?thesis using e c by blast
qed

text \<open>
  The cleanup removes by id, not by what the effect added: on a style that already has
  the source \<open>route-a\<close>, the route \<open>a\<close> adds the layer alone, and its cleanup removes
  the layer and the source.
\<close>

lemma MapRoute_removes_a_source_it_found:
  "MapRoute_effect \<lparr>map_engine = Some 0, isLoaded = True\<rparr> ''a'' None False False False
       (Live \<lparr>sources = {''route-a''}, layers = [], listeners = []\<rparr>)
     = Inr (Live \<lparr>sources = {''route-a''}, layers = [(''route-layer-a'', ''route-a'')],
                  listeners = []\<rparr>, True)
   \<and> MapRoute_cleanup ''a''
       (Live \<lparr>sources = {''route-a''}, layers = [(''route-layer-a'', ''route-a'')],
              listeners = []\<rparr>)
     = Inr (Live \<lparr>sources = {}, layers = [], listeners = []\<rparr>)"
  by (simp add: MapRoute_effect_def MapRoute_cleanup_live Let_def andThen_def
        addLayer_def getSource_def getLayer_def dflt_def)

subsection \<open>On an engine that has been removed\<close>

lemma MapRoute_cleanup_Removed: "MapRoute_cleanup ident Removed = Inl TypeError"
  by (simp add: MapRoute_cleanup_def andThen_def)

lemma MapClusterLayer_cleanup_Removed: "MapClusterLayer_cleanup Removed = Inl TypeError"
  by (simp add: MapClusterLayer_cleanup_def andThen_def)

text \<open>
  Claim C6 says that the teardown of a \<open>MapRoute\<close> and of a \<open>MapClusterLayer\<close> never
  throws, since every removal follows an existence check. When the whole \<open>Map\<close> is
  unmounted with such a child below it, the cleanup of the \<open>Map\<close> runs first and removes
  the engine; the cleanup of the child then makes its first existence check,
  \<open>map.getLayer\<close>, on the removed engine, and that call throws a \<open>TypeError\<close>: the
  checks guard against a missing layer or source, not against a missing style. This
  holds for every \<open>Map\<close> that has an engine stored and for every style the engine had.
\<close>

theorem C6_child_cleanup_after_Map_cleanup_throws:
  "snd (unmount_Map (MapRoute_cleanup ident) (s\<lparr>mapInstance := Some e\<rparr>) (Live m))
     = Inl TypeError
   \<and> snd (unmount_Map MapClusterLayer_cleanup (s\<lparr>mapInstance := Some e\<rparr>) (Live m))
     = Inl TypeError
   \<and> fst (fst (unmount_Map (MapRoute_cleanup ident) (s\<lparr>mapInstance := Some e\<rparr>) (Live m)))
     = None"
  by (simp add: unmount_Map_def map_remove_def MapRoute_cleanup_Removed
        MapClusterLayer_cleanup_Removed Map_cleanup_def engine_remove_def)

end
